theory Spec2Isabelle
  imports Main
begin

section \<open>cors-headers: the values of the program\<close>

text \<open>
  The repository is one TypeScript module, \<^verbatim>\<open>src/cors.ts\<close>, whose entry point
  \<^verbatim>\<open>cors(req, options)\<close> computes the CORS response headers of one request. The
  embedding follows the module function by function and keeps its names.

  Strings are \<^typ>\<open>string\<close>. HTTP methods and header names are ASCII tokens, so
  \<^verbatim>\<open>toUpperCase\<close> and the lower-casing of header names act on the ASCII letters.
\<close>

definition upper_char :: "char \<Rightarrow> char" where
  "upper_char c =
     (let n = (of_char c :: nat) in if 97 \<le> n \<and> n \<le> 122 then char_of (n - 32) else c)"

definition lower_char :: "char \<Rightarrow> char" where
  "lower_char c =
     (let n = (of_char c :: nat) in if 65 \<le> n \<and> n \<le> 90 then char_of (n + 32) else c)"

definition toUpperCase :: "string \<Rightarrow> string" where
  "toUpperCase s = map upper_char s"

definition toLowerCase :: "string \<Rightarrow> string" where
  "toLowerCase s = map lower_char s"

text \<open>\<^verbatim>\<open>Array.prototype.join\<close> on an array of strings.\<close>

fun join :: "string \<Rightarrow> string list \<Rightarrow> string" where
  "join sep [] = []"
| "join sep [x] = x"
| "join sep (x # y # ys) = x @ sep @ join sep (y # ys)"

text \<open>\<^verbatim>\<open>String(n)\<close> for an integral number: its decimal numeral.\<close>

fun string_of_nat :: "nat \<Rightarrow> string" where
  "string_of_nat n =
     (if n < 10 then [char_of (48 + n)]
      else string_of_nat (n div 10) @ [char_of (48 + n mod 10)])"

declare string_of_nat.simps [simp del]

definition String_number :: "int \<Rightarrow> string" where
  "String_number i =
     (if i < 0 then CHR ''-'' # string_of_nat (nat (- i)) else string_of_nat (nat i))"

subsection \<open>The platform's Headers class\<close>

text \<open>
  \<^verbatim>\<open>Headers\<close> is the Fetch API's header list: an ordered list of name/value pairs,
  names kept in lower case. \<^verbatim>\<open>get\<close> answers the values of a name joined by a comma
  and a space (\<^verbatim>\<open>null\<close> when there is none), \<^verbatim>\<open>set\<close> overwrites the first
  entry of the name and drops its other entries (or adds one), \<^verbatim>\<open>append\<close> adds an
  entry at the end. The class's validation and white-space trimming of values are not
  modelled: values are taken to be legal header values.
\<close>

type_synonym Headers = "(string \<times> string) list"

definition Headers_new :: Headers where
  "Headers_new = []"

definition Headers_get :: "Headers \<Rightarrow> string \<Rightarrow> string option" where
  "Headers_get hs name =
     (let vs = map snd (filter (\<lambda>kv. fst kv = toLowerCase name) hs)
      in if vs = [] then None else Some (join '', '' vs))"

definition Headers_append :: "Headers \<Rightarrow> string \<Rightarrow> string \<Rightarrow> Headers" where
  "Headers_append hs name v = hs @ [(toLowerCase name, v)]"

fun set_first :: "string \<Rightarrow> string \<Rightarrow> Headers \<Rightarrow> Headers" where
  "set_first n v [] = [(n, v)]"
| "set_first n v (kv # rest) =
     (if fst kv = n then (n, v) # filter (\<lambda>kv'. fst kv' \<noteq> n) rest
      else kv # set_first n v rest)"

definition Headers_set :: "Headers \<Rightarrow> string \<Rightarrow> string \<Rightarrow> Headers" where
  "Headers_set hs name v = set_first (toLowerCase name) v hs"

record Request =
  "method" :: string
  headers :: Headers

subsection \<open>Configuration\<close>

text \<open>
  \<^verbatim>\<open>types.ts\<close> declares
  \<^verbatim>\<open>CORSOrigin = boolean | string | RegExp | (string | RegExp)[]\<close> and lets the
  \<^verbatim>\<open>origin\<close> option be such a value or a callback to one. The code inspects the
  value at run time (\<^verbatim>\<open>Array.isArray\<close>, \<^verbatim>\<open>typeof\<close>, \<^verbatim>\<open>instanceof\<close>,
  truthiness), so the embedding is the run-time value: nested arrays, callbacks, numbers,
  \<^verbatim>\<open>null\<close> and \<^verbatim>\<open>undefined\<close> included. A regular expression is its
  \<^verbatim>\<open>test\<close> method, read as a predicate on strings (a pattern without the stateful
  \<^verbatim>\<open>g\<close> and \<^verbatim>\<open>y\<close> flags). Callbacks are pure and total.
\<close>

datatype origin_value =
    JBool bool
  | JStr string
  | JRegExp "string \<Rightarrow> bool"
  | JArr "origin_value list"
  | JFunc "string option \<Rightarrow> origin_value"
  | JNum int
  | JNull
  | JUndefined

text \<open>JavaScript's truthiness, as \<^verbatim>\<open>!!v\<close> and \<^verbatim>\<open>if (v)\<close> read it.\<close>

fun truthy :: "origin_value \<Rightarrow> bool" where
  "truthy (JBool b) = b"
| "truthy (JStr s) = (s \<noteq> [])"
| "truthy (JNum n) = (n \<noteq> 0)"
| "truthy JNull = False"
| "truthy JUndefined = False"
| "truthy (JRegExp p) = True"
| "truthy (JArr xs) = True"
| "truthy (JFunc f) = True"

text \<open>A \<^verbatim>\<open>string | string[]\<close> option value.\<close>

datatype string_or_array = OneString string | StringArray "string list"

text \<open>
  A configuration object: \<^verbatim>\<open>Partial<CORSOptions>\<close>. A field is \<open>None\<close> when the
  object has no such property. The merged \<^verbatim>\<open>corsOptions\<close> is an object of the same
  shape. A property that is there holds a value of its declared type; only
  \<^verbatim>\<open>origin\<close>, which the code inspects at run time, ranges over all values,
  \<^verbatim>\<open>undefined\<close> included. \<^verbatim>\<open>maxAge\<close> is an integral number.
\<close>

record CORSOptions =
  allowedHeaders :: "string_or_array option"
  allowedMethods :: "string_or_array option"
  credentials :: "bool option"
  exposedHeaders :: "string_or_array option"
  maxAge :: "int option"
  origin :: "origin_value option"

definition empty_object :: CORSOptions where
  "empty_object =
     \<lparr>allowedHeaders = None, allowedMethods = None, credentials = None,
      exposedHeaders = None, maxAge = None, origin = None\<rparr>"

definition defaults :: CORSOptions where
  "defaults =
     \<lparr>allowedHeaders = None,
      allowedMethods = Some (OneString ''GET,HEAD,PUT,PATCH,POST,DELETE''),
      credentials = Some False,
      exposedHeaders = None,
      maxAge = None,
      origin = Some (JStr ''*'')\<rparr>"

text \<open>The object spread \<^verbatim>\<open>{ ...a, ...b }\<close>: a new object, the properties of \<open>b\<close> winning.\<close>

definition override :: "'a option \<Rightarrow> 'a option \<Rightarrow> 'a option" where
  "override a b = (case b of None \<Rightarrow> a | Some v \<Rightarrow> Some v)"

definition spread :: "CORSOptions \<Rightarrow> CORSOptions \<Rightarrow> CORSOptions" where
  "spread a b =
     \<lparr>allowedHeaders = override (allowedHeaders a) (allowedHeaders b),
      allowedMethods = override (allowedMethods a) (allowedMethods b),
      credentials = override (credentials a) (credentials b),
      exposedHeaders = override (exposedHeaders a) (exposedHeaders b),
      maxAge = override (maxAge a) (maxAge b),
      origin = override (origin a) (origin b)\<rparr>"

text \<open>Reading \<^verbatim>\<open>options.origin\<close>: \<^verbatim>\<open>undefined\<close> when the property is missing.\<close>

definition get_origin :: "CORSOptions \<Rightarrow> origin_value" where
  "get_origin options = (case origin options of None \<Rightarrow> JUndefined | Some v \<Rightarrow> v)"

text \<open>
  \<^verbatim>\<open>if (Array.isArray(x)) x = x.join(",")\<close>, as the three \<^verbatim>\<open>configure\<close> functions
  of the string-or-array options start.
\<close>

definition join_if_array :: "string_or_array option \<Rightarrow> string option" where
  "join_if_array x =
     (case x of
        None \<Rightarrow> None
      | Some (OneString s) \<Rightarrow> Some s
      | Some (StringArray xs) \<Rightarrow> Some (join '','' xs))"

section \<open>The functions of cors.ts\<close>

text \<open>
  \<^verbatim>\<open>isOriginAllowed\<close> (lines 13--28). The \<^verbatim>\<open>for\<close> loop over the array, with its
  early \<^verbatim>\<open>return true\<close>, is \<open>isOriginAllowed_loop\<close>.
\<close>

fun isOriginAllowed :: "string \<Rightarrow> origin_value \<Rightarrow> bool"
  and isOriginAllowed_loop :: "string \<Rightarrow> origin_value list \<Rightarrow> bool" where
  "isOriginAllowed reqOrigin (JArr allowedOrigin) = isOriginAllowed_loop reqOrigin allowedOrigin"
| "isOriginAllowed reqOrigin (JStr allowedOrigin) = (reqOrigin = allowedOrigin)"
| "isOriginAllowed reqOrigin (JRegExp allowedOrigin) = allowedOrigin reqOrigin"
| "isOriginAllowed reqOrigin (JBool b) = truthy (JBool b)"
| "isOriginAllowed reqOrigin (JFunc f) = truthy (JFunc f)"
| "isOriginAllowed reqOrigin (JNum n) = truthy (JNum n)"
| "isOriginAllowed reqOrigin JNull = truthy JNull"
| "isOriginAllowed reqOrigin JUndefined = truthy JUndefined"
| "isOriginAllowed_loop reqOrigin [] = False"
| "isOriginAllowed_loop reqOrigin (x # xs) =
     (if isOriginAllowed reqOrigin x then True else isOriginAllowed_loop reqOrigin xs)"

text \<open>
  A header directive: \<^verbatim>\<open>HeaderObj = { key; value: string | undefined | null | boolean }\<close>,
  and the entries of \<^verbatim>\<open>headersArr\<close>: \<^verbatim>\<open>undefined\<close>, a directive, or an array of
  entries.
\<close>

datatype header_value = VString string | VBoolean bool | VNull | VUndefined

fun value_truthy :: "header_value \<Rightarrow> bool" where
  "value_truthy (VString s) = (s \<noteq> [])"
| "value_truthy (VBoolean b) = b"
| "value_truthy VNull = False"
| "value_truthy VUndefined = False"

fun String_value :: "header_value \<Rightarrow> string" where
  "String_value (VString s) = s"
| "String_value (VBoolean b) = (if b then ''true'' else ''false'')"
| "String_value VNull = ''null''"
| "String_value VUndefined = ''undefined''"

datatype headers_entry =
    NoHeader
  | HeaderObj string header_value
  | HeaderArr "headers_entry list"

text \<open>
  A value of type \<^verbatim>\<open>string | null | undefined\<close> (\<open>None\<close> when it is no string):
  its truthiness, and the value as a directive carries it.
\<close>

definition string_truthy :: "string option \<Rightarrow> bool" where
  "string_truthy x = (case x of None \<Rightarrow> False | Some s \<Rightarrow> s \<noteq> [])"

definition string_value :: "string option \<Rightarrow> header_value" where
  "string_value x = (case x of None \<Rightarrow> VNull | Some s \<Rightarrow> VString s)"

text \<open>\<^verbatim>\<open>configureOrigin\<close> (lines 30--56).\<close>

definition configureOrigin :: "CORSOptions \<Rightarrow> Request \<Rightarrow> headers_entry list" where
  "configureOrigin options req =
     (let requestOrigin = Headers_get (headers req) ''origin'';
          optsOrigin = get_origin options
      in if \<not> truthy optsOrigin \<or> (case optsOrigin of JStr s \<Rightarrow> s = ''*'' | _ \<Rightarrow> False)
         then [HeaderObj ''Access-Control-Allow-Origin'' (VString ''*'')]
         else (case optsOrigin of
                 JStr s \<Rightarrow>
                   [HeaderObj ''Access-Control-Allow-Origin'' (VString s),
                    HeaderObj ''Vary'' (VString ''Origin'')]
               | _ \<Rightarrow>
                   (let isAllowed =
                          (case requestOrigin of
                             None \<Rightarrow> False
                           | Some ro \<Rightarrow> if ro \<noteq> [] then isOriginAllowed ro optsOrigin else False)
                    in [HeaderObj ''Access-Control-Allow-Origin''
                          (if isAllowed then string_value requestOrigin else VBoolean False),
                        HeaderObj ''Vary'' (VString ''Origin'')])))"

text \<open>\<^verbatim>\<open>configureMethods\<close> (lines 58--66).\<close>

definition configureMethods :: "CORSOptions \<Rightarrow> headers_entry" where
  "configureMethods options =
     (let methods = join_if_array (allowedMethods options)
      in if string_truthy methods
         then HeaderObj ''Access-Control-Allow-Methods'' (string_value methods)
         else NoHeader)"

text \<open>\<^verbatim>\<open>configureCredentials\<close> (lines 68--72).\<close>

definition configureCredentials :: "CORSOptions \<Rightarrow> headers_entry" where
  "configureCredentials options =
     (if credentials options = Some True
      then HeaderObj ''Access-Control-Allow-Credentials'' (VBoolean True)
      else NoHeader)"

text \<open>
  \<^verbatim>\<open>configureAllowedHeaders\<close> (lines 74--99). \<open>reflect\<close> is the test
  \<^verbatim>\<open>!allowedHeaders\<close> of line 83, under which the request's header replaces the
  option.
\<close>

definition configureAllowedHeaders :: "CORSOptions \<Rightarrow> Request \<Rightarrow> headers_entry list" where
  "configureAllowedHeaders options req =
     (let allowedHeaders = join_if_array (allowedHeaders options);
          reflect = \<not> string_truthy allowedHeaders;
          allowedHeaders =
            (if reflect then Headers_get (headers req) ''access-control-request-headers''
             else allowedHeaders);
          hs = (if reflect \<and> string_truthy allowedHeaders
                then [HeaderObj ''Vary'' (VString ''Access-Control-Request-Headers'')]
                else [])
      in if string_truthy allowedHeaders
         then hs @ [HeaderObj ''Access-Control-Allow-Headers'' (string_value allowedHeaders)]
         else hs)"

text \<open>\<^verbatim>\<open>configureExposedHeaders\<close> (lines 101--111).\<close>

definition configureExposedHeaders :: "CORSOptions \<Rightarrow> headers_entry" where
  "configureExposedHeaders options =
     (let exposeHeaders = join_if_array (exposedHeaders options)
      in if string_truthy exposeHeaders
         then HeaderObj ''Access-Control-Expose-Headers'' (string_value exposeHeaders)
         else NoHeader)"

text \<open>\<^verbatim>\<open>configureMaxAge\<close> (lines 113--119).\<close>

definition configureMaxAge :: "CORSOptions \<Rightarrow> headers_entry" where
  "configureMaxAge options =
     (let age = (case maxAge options of None \<Rightarrow> None | Some n \<Rightarrow> Some (String_number n))
      in if string_truthy age
         then HeaderObj ''Access-Control-Max-Age'' (string_value age)
         else NoHeader)"

text \<open>
  \<^verbatim>\<open>applyHeaders\<close> (lines 122--139): the loop over \<^verbatim>\<open>headersArr\<close>, writing into the
  one \<^verbatim>\<open>Headers\<close> object, which is threaded through as the state.
\<close>

fun applyHeaders :: "headers_entry list \<Rightarrow> Headers \<Rightarrow> Headers"
  and applyHeader :: "headers_entry \<Rightarrow> Headers \<Rightarrow> Headers" where
  "applyHeaders [] hs = hs"
| "applyHeaders (header # rest) hs = applyHeaders rest (applyHeader header hs)"
| "applyHeader NoHeader hs = hs"
| "applyHeader (HeaderArr header) hs = applyHeaders header hs"
| "applyHeader (HeaderObj k v) hs =
     (if k = ''Vary'' \<and> value_truthy v then Headers_append hs k (String_value v)
      else if value_truthy v then Headers_set hs k (String_value v)
      else hs)"

text \<open>
  \<^verbatim>\<open>cors\<close> (lines 141--191). The second argument is left out (the default
  \<^verbatim>\<open>{}\<close> applies), a configuration object, or a callback to one. The one
  \<^verbatim>\<open>throw\<close> of the module is the error value.
\<close>

datatype cors_options = NoOptions | Options CORSOptions | OptionsCallback "string option \<Rightarrow> CORSOptions"

datatype error = ConfigurationError | TypeError

text \<open>Lines 145--165: the working copy \<^verbatim>\<open>corsOptions\<close>, its origin callback resolved.\<close>

definition cors_resolve :: "Request \<Rightarrow> cors_options \<Rightarrow> error + CORSOptions" where
  "cors_resolve req options =
     (let reqOrigin = Headers_get (headers req) ''origin'';
          corsOptions = spread empty_object defaults;
          corsOptions =
            (case options of
               OptionsCallback callback \<Rightarrow> spread corsOptions (callback reqOrigin)
             | Options obj \<Rightarrow> spread corsOptions obj
             | NoOptions \<Rightarrow> spread corsOptions empty_object)
      in case get_origin corsOptions of
           JFunc callback \<Rightarrow>
             (let originCallbackResult = callback reqOrigin
              in case originCallbackResult of
                   JFunc f \<Rightarrow> Inl ConfigurationError
                 | _ \<Rightarrow> Inr (corsOptions\<lparr>origin := Some originCallbackResult\<rparr>))
         | _ \<Rightarrow> Inr corsOptions)"

text \<open>Lines 146 and 167--190: the directives of the request, applied to a new \<^verbatim>\<open>Headers\<close>.\<close>

definition cors_headersArr :: "Request \<Rightarrow> CORSOptions \<Rightarrow> headers_entry list" where
  "cors_headersArr req corsOptions =
     (let meth = toUpperCase (method req)
      in if truthy (get_origin corsOptions)
         then (if meth = ''OPTIONS''
               then [HeaderArr (configureOrigin corsOptions req),
                     configureCredentials corsOptions,
                     configureMethods corsOptions,
                     HeaderArr (configureAllowedHeaders corsOptions req),
                     configureMaxAge corsOptions,
                     configureExposedHeaders corsOptions,
                     HeaderObj ''Content-Length'' (VString ''0'')]
               else [HeaderArr (configureOrigin corsOptions req),
                     configureCredentials corsOptions,
                     configureExposedHeaders corsOptions])
         else [])"

definition cors :: "Request \<Rightarrow> cors_options \<Rightarrow> error + Headers" where
  "cors req options =
     (case cors_resolve req options of
        Inl e \<Rightarrow> Inl e
      | Inr corsOptions \<Rightarrow> Inr (applyHeaders (cors_headersArr req corsOptions) Headers_new))"

section \<open>The configuration object in the store\<close>












section \<open>Vocabulary of the specification\<close>

text \<open>
  The request's origin, the merged configuration (the defaults overridden by the caller's
  fields, lines 148--155), the resolved origin rule (the merged \<^verbatim>\<open>origin\<close>, or what
  the origin callback answers, lines 157--165), and whether the origin callback answered
  another callback.
\<close>

definition request_origin :: "Request \<Rightarrow> string option" where
  "request_origin req = Headers_get (headers req) ''origin''"

definition merged_options :: "Request \<Rightarrow> cors_options \<Rightarrow> CORSOptions" where
  "merged_options req options =
     (case options of
        NoOptions \<Rightarrow> defaults
      | Options obj \<Rightarrow> spread defaults obj
      | OptionsCallback callback \<Rightarrow> spread defaults (callback (request_origin req)))"

definition resolved_origin :: "Request \<Rightarrow> cors_options \<Rightarrow> origin_value" where
  "resolved_origin req options =
     (case get_origin (merged_options req options) of
        JFunc callback \<Rightarrow> callback (request_origin req)
      | JBool b \<Rightarrow> JBool b
      | JStr s \<Rightarrow> JStr s
      | JRegExp p \<Rightarrow> JRegExp p
      | JArr xs \<Rightarrow> JArr xs
      | JNum n \<Rightarrow> JNum n
      | JNull \<Rightarrow> JNull
      | JUndefined \<Rightarrow> JUndefined)"

definition is_callback :: "origin_value \<Rightarrow> bool" where
  "is_callback v = (case v of JFunc f \<Rightarrow> True | _ \<Rightarrow> False)"

definition nested_callback :: "Request \<Rightarrow> cors_options \<Rightarrow> bool" where
  "nested_callback req options =
     (case get_origin (merged_options req options) of
        JFunc callback \<Rightarrow> is_callback (callback (request_origin req))
      | _ \<Rightarrow> False)"

definition is_preflight :: "Request \<Rightarrow> bool" where
  "is_preflight req = (toUpperCase (method req) = ''OPTIONS'')"

text \<open>
  The request's \<^verbatim>\<open>Access-Control-Request-Headers\<close> are reflected: on a preflight, when
  the joined \<^verbatim>\<open>allowedHeaders\<close> is missing or empty and the request header is there
  and not empty.
\<close>

definition requested_headers :: "Request \<Rightarrow> string option" where
  "requested_headers req = Headers_get (headers req) ''access-control-request-headers''"


definition resolved_options :: "Request \<Rightarrow> cors_options \<Rightarrow> CORSOptions" where
  "resolved_options req options =
     (merged_options req options)\<lparr>origin := Some (resolved_origin req options)\<rparr>"


text \<open>A header's value after \<^verbatim>\<open>append\<close>, from its value before.\<close>

definition vary_append :: "string option \<Rightarrow> string \<Rightarrow> string" where
  "vary_append old v = (case old of None \<Rightarrow> v | Some x \<Rightarrow> x @ '', '' @ v)"


text \<open>Line 43--45: the request has a non-empty origin, and the matcher allows it.\<close>

definition origin_allowed :: "Request \<Rightarrow> origin_value \<Rightarrow> bool" where
  "origin_allowed req rule =
     (case request_origin req of
        None \<Rightarrow> False
      | Some ro \<Rightarrow> ro \<noteq> [] \<and> isOriginAllowed ro rule)"




text \<open>A value that is neither an array, a string nor a pattern.\<close>

definition other_value :: "origin_value \<Rightarrow> bool" where
  "other_value v =
     (case v of JArr xs \<Rightarrow> False | JStr s \<Rightarrow> False | JRegExp p \<Rightarrow> False | _ \<Rightarrow> True)"

text \<open>The two requests of \<^verbatim>\<open>tests/index.test.ts\<close> (lines 4--16).\<close>

definition mockRequestGET :: Request where
  "mockRequestGET = \<lparr>method = ''GET'', headers = [(''origin'', ''https://example.com'')]\<rparr>"


section \<open>Facts about the platform models\<close>

lemma lower_case_names:
  "toLowerCase ''Vary'' = ''vary''"
  "toLowerCase ''origin'' = ''origin''"
  "toLowerCase ''Access-Control-Allow-Origin'' = ''access-control-allow-origin''"
  "toLowerCase ''Access-Control-Allow-Methods'' = ''access-control-allow-methods''"
  "toLowerCase ''Access-Control-Allow-Headers'' = ''access-control-allow-headers''"
  "toLowerCase ''Access-Control-Allow-Credentials'' = ''access-control-allow-credentials''"
  "toLowerCase ''Access-Control-Max-Age'' = ''access-control-max-age''"
  "toLowerCase ''Access-Control-Expose-Headers'' = ''access-control-expose-headers''"
  "toLowerCase ''Content-Length'' = ''content-length''"
  "toLowerCase ''access-control-request-headers'' = ''access-control-request-headers''"
  by code_simp+

lemma filter_set_first:
  "filter (\<lambda>kv. fst kv = m) (set_first n v hs) =
     (if m = n then [(n, v)] else filter (\<lambda>kv. fst kv = m) hs)"
  by (induction hs) (auto simp: filter_empty_conv intro: filter_cong)

lemma Headers_get_set:
  "Headers_get (Headers_set hs n v) m =
     (if toLowerCase m = toLowerCase n then Some v else Headers_get hs m)"
  by (simp add: Headers_get_def Headers_set_def filter_set_first)

lemma join_snoc: "join sep (xs @ [x]) = (if xs = [] then x else join sep xs @ sep @ x)"
  by (induction sep xs rule: join.induct) auto

lemma Headers_get_append:
  "Headers_get (Headers_append hs n v) m =
     (if toLowerCase m = toLowerCase n then Some (vary_append (Headers_get hs m) v)
      else Headers_get hs m)"
  by (simp add: Headers_get_def Headers_append_def join_snoc Let_def vary_append_def)

lemma Headers_get_new: "Headers_get Headers_new m = None"
  by (simp add: Headers_get_def Headers_new_def)

lemma string_of_nat_nonempty: "string_of_nat n \<noteq> []"
  by (subst string_of_nat.simps) simp

lemma String_number_nonempty: "String_number i \<noteq> []"
  by (simp add: String_number_def string_of_nat_nonempty)

lemmas header_facts = Headers_get_set Headers_get_append Headers_get_new lower_case_names

section \<open>What each directive leaves in the headers\<close>

text \<open>
  For every header name \<open>k\<close>: its value after the directives of one
  \<^verbatim>\<open>configure\<close> function are applied, from its value before.
\<close>

lemma get_configureCredentials:
  "Headers_get (applyHeader (configureCredentials co) hs) k =
     (if credentials co = Some True \<and> toLowerCase k = ''access-control-allow-credentials''
      then Some ''true'' else Headers_get hs k)"
  by (simp add: configureCredentials_def header_facts)

lemma get_configureMethods:
  "Headers_get (applyHeader (configureMethods co) hs) k =
     (if string_truthy (join_if_array (allowedMethods co))
         \<and> toLowerCase k = ''access-control-allow-methods''
      then join_if_array (allowedMethods co) else Headers_get hs k)"
  by (auto simp: configureMethods_def header_facts Let_def string_truthy_def string_value_def
           split: option.splits)

lemma get_configureExposedHeaders:
  "Headers_get (applyHeader (configureExposedHeaders co) hs) k =
     (if string_truthy (join_if_array (exposedHeaders co))
         \<and> toLowerCase k = ''access-control-expose-headers''
      then join_if_array (exposedHeaders co) else Headers_get hs k)"
  by (auto simp: configureExposedHeaders_def header_facts Let_def string_truthy_def
                 string_value_def
           split: option.splits)

lemma get_configureMaxAge:
  "Headers_get (applyHeader (configureMaxAge co) hs) k =
     (if maxAge co \<noteq> None \<and> toLowerCase k = ''access-control-max-age''
      then map_option String_number (maxAge co) else Headers_get hs k)"
  by (auto simp: configureMaxAge_def header_facts Let_def string_truthy_def string_value_def
                 String_number_nonempty
           split: option.splits)

lemma get_configureAllowedHeaders:
  "Headers_get (applyHeaders (configureAllowedHeaders co req) hs) k =
     (if string_truthy (join_if_array (allowedHeaders co))
      then (if toLowerCase k = ''access-control-allow-headers''
            then join_if_array (allowedHeaders co) else Headers_get hs k)
      else if string_truthy (requested_headers req)
      then (if toLowerCase k = ''access-control-allow-headers'' then requested_headers req
            else if toLowerCase k = ''vary''
            then Some (vary_append (Headers_get hs k) ''Access-Control-Request-Headers'')
            else Headers_get hs k)
      else Headers_get hs k)"
  by (auto simp: configureAllowedHeaders_def header_facts Let_def string_truthy_def
                 string_value_def requested_headers_def
           split: option.splits)

lemma get_configureOrigin:
  "Headers_get (applyHeaders (configureOrigin co req) hs) k =
     (if \<not> truthy (get_origin co) \<or> get_origin co = JStr ''*''
      then (if toLowerCase k = ''access-control-allow-origin'' then Some ''*''
            else Headers_get hs k)
      else if toLowerCase k = ''vary'' then Some (vary_append (Headers_get hs k) ''Origin'')
      else if toLowerCase k = ''access-control-allow-origin''
      then (case get_origin co of
              JStr s \<Rightarrow> Some s
            | _ \<Rightarrow> if origin_allowed req (get_origin co) then request_origin req
                   else Headers_get hs k)
      else Headers_get hs k)"
  by (cases "get_origin co")
     (auto simp: configureOrigin_def header_facts Let_def string_truthy_def string_value_def
                 origin_allowed_def request_origin_def
           split: option.splits)

lemmas directive_facts = get_configureCredentials get_configureMethods
  get_configureExposedHeaders get_configureMaxAge get_configureAllowedHeaders
  get_configureOrigin

section \<open>The resolved configuration\<close>

lemma spread_empty_defaults: "spread empty_object defaults = defaults"
  by (simp add: spread_def empty_object_def defaults_def override_def)

lemma spread_defaults_empty: "spread defaults empty_object = defaults"
  by (simp add: spread_def empty_object_def defaults_def override_def)

lemma origin_spread_defaults:
  "origin (spread defaults obj) = Some (get_origin (spread defaults obj))"
  by (simp add: spread_def defaults_def override_def get_origin_def split: option.splits)

lemma origin_merged:
  "origin (merged_options req options) = Some (get_origin (merged_options req options))"
proof (cases options)
  case NoOptions
  then show ?thesis by (simp add: merged_options_def defaults_def get_origin_def)
qed (simp_all add: merged_options_def origin_spread_defaults)

lemma cors_resolve_merged:
  "cors_resolve req options =
     (case get_origin (merged_options req options) of
        JFunc callback \<Rightarrow>
          (case callback (Headers_get (headers req) ''origin'') of
             JFunc f \<Rightarrow> Inl ConfigurationError
           | r \<Rightarrow> Inr ((merged_options req options)\<lparr>origin := Some r\<rparr>))
      | r \<Rightarrow> Inr (merged_options req options))"
proof -
  have m: "(case options of
               OptionsCallback callback \<Rightarrow>
                 spread defaults (callback (Headers_get (headers req) ''origin''))
             | Options obj \<Rightarrow> spread defaults obj
             | NoOptions \<Rightarrow> spread defaults empty_object) = merged_options req options"
    by (cases options) (simp_all add: merged_options_def request_origin_def spread_defaults_empty)
  show ?thesis
    unfolding cors_resolve_def Let_def spread_empty_defaults m
    by (simp split: origin_value.splits)
qed

lemma cors_resolve_eq:
  "cors_resolve req options =
     (if nested_callback req options then Inl ConfigurationError
      else Inr (resolved_options req options))"
proof -
  let ?m = "merged_options req options"
  have keep: "?m\<lparr>origin := Some (get_origin ?m)\<rparr> = ?m"
    using origin_merged [of req options] by simp
  show ?thesis
    unfolding cors_resolve_merged
    using keep
    by (cases "get_origin ?m")
       (auto simp: nested_callback_def resolved_options_def resolved_origin_def is_callback_def
                   request_origin_def split: origin_value.splits)
qed

lemma cors_eq:
  "cors req options =
     (if nested_callback req options then Inl ConfigurationError
      else Inr (applyHeaders (cors_headersArr req (resolved_options req options)) Headers_new))"
  by (simp add: cors_def cors_resolve_eq)

lemma resolved_fields [simp]:
  "get_origin (resolved_options req options) = resolved_origin req options"
  "allowedHeaders (resolved_options req options) = allowedHeaders (merged_options req options)"
  "allowedMethods (resolved_options req options) = allowedMethods (merged_options req options)"
  "credentials (resolved_options req options) = credentials (merged_options req options)"
  "exposedHeaders (resolved_options req options) = exposedHeaders (merged_options req options)"
  "maxAge (resolved_options req options) = maxAge (merged_options req options)"
  by (simp_all add: resolved_options_def get_origin_def)

lemma nested_iff: "nested_callback req options = is_callback (resolved_origin req options)"
  by (cases "get_origin (merged_options req options)")
     (simp_all add: nested_callback_def resolved_origin_def is_callback_def)

lemma merged_NoOptions: "merged_options req NoOptions = defaults"
  by (simp add: merged_options_def)

lemma resolved_NoOptions: "resolved_origin req NoOptions = JStr ''*''"
  by (simp add: resolved_origin_def merged_NoOptions defaults_def get_origin_def)

lemmas option_facts = resolved_origin_def merged_options_def spread_def override_def
  defaults_def empty_object_def get_origin_def

section \<open>The matcher and the specification's judgement\<close>


lemma isOriginAllowed_loop_ex:
  "isOriginAllowed_loop ro xs = (\<exists>x \<in> set xs. isOriginAllowed ro x)"
  by (induction xs) simp_all

lemma isOriginAllowed_other: "other_value x \<Longrightarrow> isOriginAllowed ro x = truthy x"
  by (cases x) (simp_all add: other_value_def)

section \<open>The store\<close>






section \<open>The claims\<close>

text \<open>
  Claim C1. For a request without an \<^verbatim>\<open>Origin\<close> header and the default configuration
  (no second argument), the call returns headers in which
  \<^verbatim>\<open>Access-Control-Allow-Origin\<close> is \<^verbatim>\<open>*\<close>, whatever the method; \<^verbatim>\<open>Vary\<close> is missing
  unless the request is a preflight with a non-empty
  \<^verbatim>\<open>Access-Control-Request-Headers\<close> header, and then it is exactly
  \<^verbatim>\<open>Access-Control-Request-Headers\<close>: \<^verbatim>\<open>allowedHeaders\<close> has no default, so
  \<^verbatim>\<open>configureAllowedHeaders\<close> reflects the request's header and pushes its
  \<^verbatim>\<open>Vary\<close> directive.
\<close>

theorem default_config_without_origin:
  assumes "request_origin req = None"
  shows "\<exists>h. cors req NoOptions = Inr h
           \<and> Headers_get h ''Access-Control-Allow-Origin'' = Some ''*''
           \<and> Headers_get h ''Vary'' =
               (if is_preflight req \<and> string_truthy (requested_headers req)
                then Some ''Access-Control-Request-Headers'' else None)"
proof -
  have d: "\<not> string_truthy (join_if_array (allowedHeaders defaults))"
    by (simp add: defaults_def join_if_array_def string_truthy_def)
  show ?thesis
    using d
    by (simp add: cors_eq nested_iff resolved_NoOptions is_callback_def cors_headersArr_def
          directive_facts header_facts merged_NoOptions is_preflight_def vary_append_def)
qed

theorem default_config_without_origin_witness:
  "request_origin \<lparr>method = ''GET'', headers = []\<rparr> = None
   \<and> (\<exists>h. cors \<lparr>method = ''GET'', headers = []\<rparr> NoOptions = Inr h
          \<and> Headers_get h ''Access-Control-Allow-Origin'' = Some ''*''
          \<and> Headers_get h ''Vary'' = None)"
proof -
  have h: "request_origin \<lparr>method = ''GET'', headers = []\<rparr> = None"
    by code_simp
  have p: "\<not> is_preflight \<lparr>method = ''GET'', headers = []\<rparr>"
    by code_simp
  show ?thesis
    using default_config_without_origin [OF h] h p by simp
qed

text \<open>
  The claim as stated, "no \<^verbatim>\<open>Vary\<close> header for every request method, including
  \<^verbatim>\<open>OPTIONS\<close> requests that carry an \<^verbatim>\<open>Access-Control-Request-Headers\<close> header",
  fails on such a preflight.
\<close>

theorem default_config_preflight_vary_counterexample:
  "request_origin
     \<lparr>method = ''OPTIONS'', headers = [(''access-control-request-headers'', ''X-Header-1'')]\<rparr>
     = None
   \<and> cors
       \<lparr>method = ''OPTIONS'', headers = [(''access-control-request-headers'', ''X-Header-1'')]\<rparr>
       NoOptions =
     Inr [(''access-control-allow-origin'', ''*''),
          (''access-control-allow-methods'', ''GET,HEAD,PUT,PATCH,POST,DELETE''),
          (''vary'', ''Access-Control-Request-Headers''),
          (''access-control-allow-headers'', ''X-Header-1''),
          (''content-length'', ''0'')]
   \<and> Headers_get
       [(''access-control-allow-origin'', ''*''),
        (''access-control-allow-methods'', ''GET,HEAD,PUT,PATCH,POST,DELETE''),
        (''vary'', ''Access-Control-Request-Headers''),
        (''access-control-allow-headers'', ''X-Header-1''),
        (''content-length'', ''0'')] ''Vary'' = Some ''Access-Control-Request-Headers''"
  by code_simp

text \<open>
  Claim C2. When the resolved origin rule is \<^verbatim>\<open>false\<close>, given directly or answered by
  an origin callback or by the options callback, the call returns the empty header
  collection, in which no header name has a value, whatever the method and the other
  fields.
\<close>

theorem origin_false_disables_cors:
  assumes "resolved_origin req options = JBool False"
  shows "cors req options = Inr Headers_new \<and> (\<forall>name. Headers_get Headers_new name = None)"
  using assms
  by (simp add: cors_eq nested_iff is_callback_def cors_headersArr_def Headers_get_new)

theorem origin_false_disables_cors_witness:
  "resolved_origin mockRequestGET
     (Options (empty_object\<lparr>origin := Some (JBool False),
                 allowedMethods := Some (StringArray [''FOO'']),
                 credentials := Some True\<rparr>)) = JBool False
   \<and> cors mockRequestGET
       (Options (empty_object\<lparr>origin := Some (JBool False),
                   allowedMethods := Some (StringArray [''FOO'']),
                   credentials := Some True\<rparr>)) = Inr Headers_new
   \<and> (\<forall>name. Headers_get Headers_new name = None)"
proof -
  have h: "resolved_origin mockRequestGET
     (Options (empty_object\<lparr>origin := Some (JBool False),
                 allowedMethods := Some (StringArray [''FOO'']),
                 credentials := Some True\<rparr>)) = JBool False"
    by (simp add: option_facts)
  show ?thesis
    using origin_false_disables_cors [OF h] h by simp
qed



















text \<open>
  Claim C10. In the origin matcher a value that is neither an array, a string nor a
  pattern is judged by its truthiness alone. So a list with a truthy such item, the
  literal \<^verbatim>\<open>true\<close> for one, allows every request origin, and a list whose items are
  all falsy such values allows none.
\<close>

theorem list_item_truthiness:
  "(other_value v \<longrightarrow> isOriginAllowed ro v = truthy v)
   \<and> (v \<in> set items \<and> other_value v \<and> truthy v \<longrightarrow> isOriginAllowed ro (JArr items))
   \<and> (JBool True \<in> set items \<longrightarrow> isOriginAllowed ro (JArr items))
   \<and> ((\<forall>x \<in> set items. other_value x \<and> \<not> truthy x) \<longrightarrow> \<not> isOriginAllowed ro (JArr items))"
proof -
  have yes: "isOriginAllowed ro (JArr items)"
    if "x \<in> set items" and "other_value x" and "truthy x" for x
    using that isOriginAllowed_other [of x ro] by (auto simp: isOriginAllowed_loop_ex)
  have no: "\<not> isOriginAllowed ro (JArr items)"
    if "\<forall>x \<in> set items. other_value x \<and> \<not> truthy x"
    using that isOriginAllowed_other by (auto simp: isOriginAllowed_loop_ex)
  show ?thesis
    using isOriginAllowed_other [of v ro] yes [of v] yes [of "JBool True"] no
    by (simp add: other_value_def)
qed

theorem list_item_truthiness_witness:
  "other_value (JNum 7) \<and> isOriginAllowed ''https://example.com'' (JNum 7)
   \<and> JBool True \<in> set [JStr ''bar.com'', JBool True]
   \<and> isOriginAllowed ''https://example.com'' (JArr [JStr ''bar.com'', JBool True])
   \<and> \<not> isOriginAllowed ''https://example.com'' (JArr [JNull, JBool False, JNum 0, JUndefined])"
proof -
  have h1: "other_value (JNum 7)" and t1: "truthy (JNum 7)"
    by (simp_all add: other_value_def)
  have h2: "JBool True \<in> set [JStr ''bar.com'', JBool True]"
    by simp
  have h3: "\<forall>x \<in> set [JNull, JBool False, JNum 0, JUndefined]. other_value x \<and> \<not> truthy x"
    by (simp add: other_value_def)
  show ?thesis
    using h1 t1 h2 h3
      list_item_truthiness [of "JNum 7" "''https://example.com''" "[JStr ''bar.com'', JBool True]"]
      list_item_truthiness [of "JNum 7" "''https://example.com''"
        "[JNull, JBool False, JNum 0, JUndefined]"]
    by blast
qed

end
